theory Spec2Isabelle
  imports Main "HOL-Library.AList"
begin

section \<open>SkillDuels: the real-time match engine of src/socket/socketHandler.js\<close>

text \<open>
  The engine keeps its live matches in the process-wide JavaScript Map \<open>gameRooms\<close>.
  Every handler of the socket server reads and mutates that Map, the room objects it
  refers to, the per-connection socket fields, the timers armed with \<open>setTimeout\<close>
  and the documents of the store. The model below threads all of this through one record,
  \<open>world\<close>, and turns every handler into a function from worlds to worlds.

  \<^item> The same room object is stored under two keys of the Map (match id and match code),
    so the Map holds addresses and the room objects live in a heap (a list that only grows).
  \<^item> Everything a handler emits is appended to the log \<open>out\<close>, with its addressee.
  \<^item> A \<open>setTimeout\<close> appends its closure to \<open>timers\<close>; the position is the handle.
    A timer that fired or was cleared is \<open>None\<close>. Delays are not modelled: a timer fires
    when the input \<open>Fire\<close> names it.
  \<^item> Each handler runs to completion before the next input is taken. Whether an awaited
    store call rejects is an explicit argument of the handler.
  \<^item> Timestamps (\<open>startTime\<close>, \<open>createdAt\<close>, \<open>startedAt\<close>, \<open>finishedAt\<close>) and the
    \<open>sync-timer\<close> poll that reads them are left out, and so is the User collection
    (the profile updates of \<open>endMatch\<close> write nothing else).
\<close>

subsection \<open>Data\<close>

type_synonym key = string
type_synonym uid = string
type_synonym sid = string
type_synonym addr = nat

text \<open>A value received from a client where the schema stores a number.\<close>

datatype jsval = JNum int | JStr string | JUndefined

text \<open>Question documents of the store (models/Question), and the projection kept in a room.\<close>

record question_doc =
  d_id :: string
  d_text :: string
  d_options :: "(int \<times> string) list"
  d_correctOptionId :: int
  d_difficulty :: string
  d_category :: string
  d_isApproved :: bool
  d_isActive :: "bool option"

record question =
  q_id :: string
  q_text :: string
  options :: "(int \<times> string) list"
  correctOptionId :: int
  difficulty :: string
  q_category :: string

record player =
  userId :: uid
  socketId :: sid
  username :: "string option"
  answered :: bool
  disconnected :: bool
  finishReady :: bool

record answer =
  questionIndex :: int
  selectedOptionId :: jsval
  isCorrect :: bool
  xpAwarded :: int

datatype mstate = Waiting | Active | Finished

record room =
  matchId :: key
  matchCode :: key
  categoryId :: string
  categoryName :: string
  numberOfQuestions :: int
  questionTimeLimit :: int
  players :: "player list"
  questionsData :: "question list"
  currentQuestionIndex :: int
  scores :: "(string \<times> int) list"
  answers :: "(string \<times> answer) list"
  state :: mstate
  timerInterval :: "nat option"
  gracePeriodTimeout :: "nat option"

text \<open>Match documents of the store (models/Match), without their timestamps.\<close>

record match_doc =
  m_players :: "(uid \<times> sid) list"
  m_category :: string
  m_questions :: "string list"
  m_scores :: "(string \<times> int) list"
  m_state :: mstate

text \<open>The fields the handlers keep on a socket.\<close>

record sock =
  s_userId :: "uid option"
  s_username :: "string option"
  s_matchId :: "key option"

datatype errcode =
    USER_NOT_FOUND | JOIN_FAILED
  | INVALID_QUESTION_COUNT | INVALID_TIME_LIMIT
  | CATEGORY_LOOKUP_ERROR | CATEGORY_NOT_FOUND
  | QUESTIONS_FETCH_ERROR | INSUFFICIENT_QUESTIONS | CREATE_MATCH_FAILED
  | MATCH_ID_REQUIRED | MATCH_NOT_FOUND | MATCH_UNAVAILABLE | JOIN_MATCH_FAILED
  | QUESTION_NOT_FOUND | ANSWER_FAILED
  | END_MATCH_ERROR

datatype target = ToSocket sid | ToRoom key | ToRoomExcept key sid | ToAll

datatype event =
    ErrorEv errcode
  | UserJoinedSuccess uid string
  | UserOnline uid string
  | MatchCreated key key string
  | MatchAvailable key string string "string option"
  | MatchReady key "(uid \<times> string option) list"
  | MatchJoined key "(uid \<times> string option) list"
  | MatchRemovedFromLobby key
  | StartBattle key string nat int
  | QuestionDisplay int question int nat
  | AnswerValidated int jsval bool int int int
  | OpponentAnswered "uid option" int
  | QuestionTimeout int
  | QuestionResults int int "(string \<times> int) list" "(string \<times> answer) list"
  | OpponentFinishReady
  | OpponentDisconnected uid
  | OpponentReconnected uid
  | MatchStateRestored key int "question option" "(string \<times> int) list" mstate
      "(uid \<times> string option \<times> bool) list"
  | MatchEnded key "uid option" "(string \<times> int) list" "(uid \<times> string \<times> int) list" int string

text \<open>
  The closures handed to \<open>setTimeout\<close>. The deadline and the grace-period closures
  capture the room object itself (its address), the others only the match id.
\<close>

datatype timer =
    StartMatchT key
  | DeliverT key int
  | DeadlineT addr key int
  | EndMatchT key
  | GraceT addr key uid

record world =
  gameRooms :: "(key \<times> addr) list"
  heap :: "room list"
  socks :: "sid \<Rightarrow> sock"
  timers :: "timer option list"
  matches :: "(string \<times> match_doc) list"
  categories :: "(string \<times> string) list"
  questions :: "question_doc list"
  out :: "(target \<times> event) list"
  crashed :: bool

subsection \<open>Configuration constants\<close>

definition QUESTION_TIME_LIMIT :: int where "QUESTION_TIME_LIMIT = 30"
definition QUESTIONS_PER_MATCH :: int where "QUESTIONS_PER_MATCH = 5"
definition XP_PER_CORRECT :: int where "XP_PER_CORRECT = 10"

subsection \<open>JavaScript idioms\<close>

text \<open>\<open>x || d\<close> on an optional number: \<open>undefined\<close> and \<open>0\<close> are falsy.\<close>

definition or_default :: "int option \<Rightarrow> int \<Rightarrow> int" where
  "or_default x d = (case x of None \<Rightarrow> d | Some n \<Rightarrow> if n = 0 then d else n)"

text \<open>A string is truthy when it is not empty; an absent one is \<open>undefined\<close>.\<close>

definition truthy :: "string option \<Rightarrow> bool" where
  "truthy x = (case x of None \<Rightarrow> False | Some s \<Rightarrow> s \<noteq> [])"

text \<open>\<open>toUpperCase\<close> on the ASCII letters (ids and codes are hexadecimal digits).\<close>

definition upper_char :: "char \<Rightarrow> char" where
  "upper_char c =
     (let n = (of_char c :: nat) in if 97 \<le> n \<and> n \<le> 122 then char_of (n - 32) else c)"

definition toUpperCase :: "string \<Rightarrow> string" where
  "toUpperCase s = map upper_char s"

definition startsWith :: "string \<Rightarrow> string \<Rightarrow> bool" where
  "startsWith s p = (take (length p) s = p)"

text \<open>\<open>arr[i]\<close>: \<open>undefined\<close> outside the array.\<close>

definition at :: "'a list \<Rightarrow> int \<Rightarrow> 'a option" where
  "at xs i = (if 0 \<le> i \<and> i < int (length xs) then Some (xs ! nat i) else None)"

text \<open>The property name that \<open>obj[userId]\<close> uses when \<open>userId\<close> is \<open>undefined\<close>.\<close>

definition prop_key :: "uid option \<Rightarrow> string" where
  "prop_key u = (case u of None \<Rightarrow> ''undefined'' | Some s \<Rightarrow> s)"

text \<open>\<open>obj[k] || 0\<close> on an object of numbers, kept in insertion order.\<close>

definition score_of :: "(string \<times> int) list \<Rightarrow> string \<Rightarrow> int" where
  "score_of sc k = (case map_of sc k of None \<Rightarrow> 0 | Some v \<Rightarrow> v)"

text \<open>\<open>arr.find(P)\<close> followed by an assignment to a field of the element found.\<close>

fun update_first :: "('a \<Rightarrow> bool) \<Rightarrow> ('a \<Rightarrow> 'a) \<Rightarrow> 'a list \<Rightarrow> 'a list" where
  "update_first P f [] = []"
| "update_first P f (x # xs) = (if P x then f x # xs else x # update_first P f xs)"

subsection \<open>The world: registry, heap, log and timers\<close>

definition get_room :: "world \<Rightarrow> key \<Rightarrow> (addr \<times> room) option" where
  "get_room w k =
     (case map_of (gameRooms w) k of
        None \<Rightarrow> None
      | Some a \<Rightarrow> if a < length (heap w) then Some (a, heap w ! a) else None)"

definition set_room :: "addr \<Rightarrow> room \<Rightarrow> world \<Rightarrow> world" where
  "set_room a r w = w\<lparr>heap := (heap w)[a := r]\<rparr>"

definition emit :: "target \<Rightarrow> event \<Rightarrow> world \<Rightarrow> world" where
  "emit t e w = w\<lparr>out := out w @ [(t, e)]\<rparr>"

definition setTimeout :: "timer \<Rightarrow> world \<Rightarrow> world" where
  "setTimeout c w = w\<lparr>timers := timers w @ [Some c]\<rparr>"

text \<open>\<open>clearTimeout(h)\<close> on the timer table; a room that armed no timer holds no handle.\<close>

definition cancel :: "nat option \<Rightarrow> timer option list \<Rightarrow> timer option list" where
  "cancel h ts = (case h of None \<Rightarrow> ts | Some t \<Rightarrow> ts[t := None])"

definition clearTimeout :: "nat option \<Rightarrow> world \<Rightarrow> world" where
  "clearTimeout h w = w\<lparr>timers := cancel h (timers w)\<rparr>"

definition set_sock :: "sid \<Rightarrow> (sock \<Rightarrow> sock) \<Rightarrow> world \<Rightarrow> world" where
  "set_sock s f w = w\<lparr>socks := (socks w)(s := f (socks w s))\<rparr>"

definition init_world :: "(string \<times> string) list \<Rightarrow> question_doc list \<Rightarrow> world" where
  "init_world cats qs =
     \<lparr>gameRooms = [], heap = [], socks = (\<lambda>_. \<lparr>s_userId = None, s_username = None, s_matchId = None\<rparr>),
      timers = [], matches = [], categories = cats, questions = qs, out = [], crashed = False\<rparr>"

subsection \<open>create-match\<close>

text \<open>
  The payload of \<open>create-match\<close>. The two optional numbers are absent when the client
  leaves them out.
\<close>

record create_req =
  c_categoryId :: string
  c_userId :: uid
  c_numberOfQuestions :: "int option"
  c_timePerQuestion :: "int option"

text \<open>Which awaited store call of \<open>create-match\<close> rejects, if any.\<close>

datatype fault = NoFault | LookupFault | FetchFault | WriteFault

text \<open>
  The \<open>$sample\<close> stage: \<open>n\<close> documents drawn without replacement, all of them when
  fewer exist. The draws of the store are the list \<open>rs\<close>.
\<close>

fun sample :: "nat list \<Rightarrow> nat \<Rightarrow> 'a list \<Rightarrow> 'a list" where
  "sample rs 0 xs = []"
| "sample rs (Suc n) [] = []"
| "sample rs (Suc n) (x # xs) =
     (let i = (case rs of [] \<Rightarrow> 0 | r # _ \<Rightarrow> r mod Suc (length xs))
      in ((x # xs) ! i) # sample (tl rs) n (take i (x # xs) @ drop (Suc i) (x # xs)))"

definition project :: "question_doc \<Rightarrow> question" where
  "project d =
     \<lparr>q_id = d_id d, q_text = d_text d, options = d_options d,
      correctOptionId = d_correctOptionId d, difficulty = d_difficulty d,
      q_category = d_category d\<rparr>"

text \<open>
  The aggregation of \<open>create-match\<close>: \<open>$match\<close> on the category and on
  \<open>isActive: { $ne: false }\<close>, then \<open>$sample\<close>, then \<open>$project\<close>.
\<close>

definition aggregate :: "question_doc list \<Rightarrow> string \<Rightarrow> nat list \<Rightarrow> nat \<Rightarrow> question list" where
  "aggregate qs cid rs n =
     map project (sample rs n (filter (\<lambda>d. d_category d = cid \<and> d_isActive d \<noteq> Some False) qs))"

text \<open>
  \<open>Category.findById\<close>, then the \<open>findOne\<close> on id or name when nothing was found.
  The result is the category's name.
\<close>

definition find_category :: "(string \<times> string) list \<Rightarrow> string \<Rightarrow> string option" where
  "find_category cats cid =
     (case find (\<lambda>c. fst c = cid) cats of
        Some c \<Rightarrow> Some (snd c)
      | None \<Rightarrow> map_option snd (find (\<lambda>c. fst c = cid \<or> snd c = cid) cats))"

definition new_room :: "key \<Rightarrow> key \<Rightarrow> string \<Rightarrow> string \<Rightarrow> int \<Rightarrow> int \<Rightarrow> uid \<Rightarrow> sid
    \<Rightarrow> string option \<Rightarrow> question list \<Rightarrow> room" where
  "new_room mid code cid cname n t u s uname qs =
     \<lparr>matchId = mid, matchCode = code, categoryId = cid, categoryName = cname,
      numberOfQuestions = n, questionTimeLimit = t,
      players = [\<lparr>userId = u, socketId = s, username = uname, answered = False,
                  disconnected = False, finishReady = False\<rparr>],
      questionsData = qs, currentQuestionIndex = 0, scores = [(u, 0)], answers = [],
      state = Waiting, timerInterval = None, gracePeriodTimeout = None\<rparr>"

text \<open>
  \<open>oid\<close> is the id the store gives the new Match document, \<open>rs\<close> the draws of its
  sampling stage. An id that the collection already holds is a duplicate-key rejection.
\<close>

definition create_match :: "sid \<Rightarrow> create_req \<Rightarrow> fault \<Rightarrow> string \<Rightarrow> nat list \<Rightarrow> world \<Rightarrow> world" where
  "create_match s req flt oid rs w =
     (let questionsCount = or_default (c_numberOfQuestions req) QUESTIONS_PER_MATCH;
          questionTimeLimit = or_default (c_timePerQuestion req) QUESTION_TIME_LIMIT
      in if questionsCount < 3 \<or> questionsCount > 20
         then emit (ToSocket s) (ErrorEv INVALID_QUESTION_COUNT) w
         else if questionTimeLimit < 15 \<or> questionTimeLimit > 300
         then emit (ToSocket s) (ErrorEv INVALID_TIME_LIMIT) w
         else if flt = LookupFault
         then emit (ToSocket s) (ErrorEv CATEGORY_LOOKUP_ERROR) w
         else case find_category (categories w) (c_categoryId req) of
           None \<Rightarrow> emit (ToSocket s) (ErrorEv CATEGORY_NOT_FOUND) w
         | Some cname \<Rightarrow>
             if flt = FetchFault
             then emit (ToSocket s) (ErrorEv QUESTIONS_FETCH_ERROR) w
             else let qs = aggregate (questions w) (c_categoryId req) rs (nat questionsCount)
               in if length qs = 0
                  then emit (ToSocket s) (ErrorEv INSUFFICIENT_QUESTIONS) w
                  else if int (length qs) < questionsCount
                  then emit (ToSocket s) (ErrorEv INSUFFICIENT_QUESTIONS) w
                  else if flt = WriteFault \<or> map_of (matches w) oid \<noteq> None
                  then emit (ToSocket s) (ErrorEv CREATE_MATCH_FAILED) w
                  else
                    let doc = \<lparr>m_players = [(c_userId req, s)], m_category = c_categoryId req,
                               m_questions = map q_id qs, m_scores = [(c_userId req, 0)],
                               m_state = Waiting\<rparr>;
                        code = toUpperCase (take 12 oid);
                        a = length (heap w);
                        r = new_room oid code (c_categoryId req) cname questionsCount
                              questionTimeLimit (c_userId req) s (s_username (socks w s)) qs;
                        w1 = w\<lparr>matches := matches w @ [(oid, doc)], heap := heap w @ [r],
                               gameRooms := AList.update code a (AList.update oid a (gameRooms w))\<rparr>;
                        w2 = set_sock s (\<lambda>k. k\<lparr>s_matchId := Some oid\<rparr>) w1;
                        w3 = emit (ToSocket s) (MatchCreated oid code cname) w2
                    in emit ToAll (MatchAvailable oid (c_categoryId req) cname (s_username (socks w s))) w3)"

subsection \<open>join-match\<close>

record join_req =
  j_matchId :: "string option"
  j_code :: "string option"
  j_userId :: uid

text \<open>
  The four lookups of \<open>join-match\<close>, in the order of the source; the result is the room
  and the \<open>targetMatchId\<close>. The scans follow the insertion order of the Map.
\<close>

definition resolve :: "world \<Rightarrow> string option \<Rightarrow> string option
    \<Rightarrow> ((addr \<times> room) \<times> string option) option" where
  "resolve w mid code =
     (let codeUpper = (if truthy code then Some (toUpperCase (the code)) else None);
          entries = List.map_filter (\<lambda>(k, a). map_option (\<lambda>ar. (k, ar)) (get_room w k)) (gameRooms w);
          r1 = (if truthy mid then map_option (\<lambda>ar. (ar, mid)) (get_room w (the mid)) else None);
          r2 = (if r1 = None \<and> codeUpper \<noteq> None
                then map_option (\<lambda>ar. (ar, if matchId (snd ar) \<noteq> [] then Some (matchId (snd ar)) else mid))
                       (get_room w (the codeUpper))
                else r1);
          r3 = (if r2 = None \<and> codeUpper \<noteq> None
                then map_option (\<lambda>(k, ar). (ar, Some (matchId (snd ar))))
                       (find (\<lambda>(k, ar). matchCode (snd ar) = the codeUpper) entries)
                else r2);
          r4 = (if r3 = None \<and> codeUpper \<noteq> None \<and> length (the codeUpper) \<ge> 8
                then map_option
                       (\<lambda>(k, ar). (ar, Some (if matchId (snd ar) \<noteq> [] then matchId (snd ar) else k)))
                       (find (\<lambda>(k, ar). k \<noteq> [] \<and> startsWith (toUpperCase k) (the codeUpper)) entries)
                else r3)
      in r4)"

definition names :: "player list \<Rightarrow> (uid \<times> string option) list" where
  "names ps = map (\<lambda>p. (userId p, username p)) ps"

text \<open>\<open>ok\<close> is false when \<open>Match.findById\<close> or \<open>match.save\<close> rejects.\<close>

definition join_match :: "sid \<Rightarrow> join_req \<Rightarrow> bool \<Rightarrow> world \<Rightarrow> world" where
  "join_match s req ok w =
     (if \<not> truthy (j_matchId req) \<and> \<not> truthy (j_code req)
      then emit (ToSocket s) (ErrorEv MATCH_ID_REQUIRED) w
      else case resolve w (j_matchId req) (j_code req) of
        None \<Rightarrow> emit (ToSocket s) (ErrorEv MATCH_NOT_FOUND) w
      | Some ((a, r), target) \<Rightarrow>
          if state r \<noteq> Waiting \<or> length (players r) \<ge> 2
          then emit (ToSocket s) (ErrorEv MATCH_UNAVAILABLE) w
          else if \<not> ok then emit (ToSocket s) (ErrorEv JOIN_MATCH_FAILED) w
          else case (case target of None \<Rightarrow> None
                     | Some t \<Rightarrow> map_option (\<lambda>m. (t, m)) (map_of (matches w) t)) of
            None \<Rightarrow> emit (ToSocket s) (ErrorEv MATCH_NOT_FOUND) w
          | Some (targetMatchId, m) \<Rightarrow>
              if m_state m \<noteq> Waiting \<or> length (m_players m) \<ge> 2
              then emit (ToSocket s) (ErrorEv MATCH_UNAVAILABLE) w
              else
                let m' = m\<lparr>m_players := m_players m @ [(j_userId req, s)],
                           m_scores := m_scores m @ [(j_userId req, 0)], m_state := Active\<rparr>;
                    r' = r\<lparr>players := players r @
                             [\<lparr>userId = j_userId req, socketId = s, username = s_username (socks w s),
                               answered = False, disconnected = False, finishReady = False\<rparr>],
                           state := Active\<rparr>;
                    w1 = set_room a r' (w\<lparr>matches := AList.update targetMatchId m' (matches w)\<rparr>);
                    w2 = set_sock s (\<lambda>k. k\<lparr>s_matchId := Some targetMatchId\<rparr>) w1;
                    w3 = emit (ToRoom targetMatchId) (MatchReady targetMatchId (names (players r'))) w2;
                    w4 = emit (ToSocket s) (MatchJoined targetMatchId (names (players r'))) w3;
                    w5 = emit ToAll (MatchRemovedFromLobby targetMatchId) w4
                in setTimeout (StartMatchT targetMatchId) w5)"

subsection \<open>Questions, answers and results\<close>

text \<open>
  \<open>displayQuestionResults\<close>. Its log line reads \<open>correctOption.text\<close> unguarded, so it
  throws when no option carries the correct id: the result is then \<open>None\<close>.
\<close>

definition displayQuestionResults :: "key \<Rightarrow> int \<Rightarrow> world \<Rightarrow> world option" where
  "displayQuestionResults mid qi w =
     (case get_room w mid of
        None \<Rightarrow> Some w
      | Some (a, r) \<Rightarrow>
          (case at (questionsData r) qi of
             None \<Rightarrow> Some w
           | Some q \<Rightarrow>
               (case find (\<lambda>opt. fst opt = correctOptionId q) (options q) of
                  None \<Rightarrow> None
                | Some correctOption \<Rightarrow>
                    Some (set_room a (r\<lparr>answers := []\<rparr>)
                      (emit (ToRoom mid) (QuestionResults qi (correctOptionId q) (scores r) (answers r)) w)))))"

text \<open>
  \<open>deliverQuestion\<close>: resets the answered flags, broadcasts the question and arms the
  deadline, whose handle the room keeps in \<open>timerInterval\<close>.
\<close>

definition deliverQuestion :: "key \<Rightarrow> int \<Rightarrow> world \<Rightarrow> world" where
  "deliverQuestion mid qi w =
     (case get_room w mid of
        None \<Rightarrow> w
      | Some (a, r) \<Rightarrow>
          (case at (questionsData r) qi of
             None \<Rightarrow> w
           | Some q \<Rightarrow>
               let timeLimit = (if questionTimeLimit r = 0 then QUESTION_TIME_LIMIT else questionTimeLimit r);
                   w1 = emit (ToRoom mid) (QuestionDisplay qi q timeLimit (length (questionsData r))) w;
                   w2 = setTimeout (DeadlineT a mid qi) w1
               in set_room a (r\<lparr>players := map (\<lambda>p. p\<lparr>answered := False\<rparr>) (players r),
                                timerInterval := Some (length (timers w))\<rparr>) w2))"

text \<open>
  \<open>submit-answer\<close>. The handler's \<open>try\<close> block turns a thrown TypeError (the unguarded
  \<open>correctOption.text\<close> of the feedback message, or the one of \<open>displayQuestionResults\<close>)
  into \<open>ANSWER_FAILED\<close>; what was written before the throw stays written.
\<close>

definition submit_answer :: "sid \<Rightarrow> key \<Rightarrow> int \<Rightarrow> jsval \<Rightarrow> world \<Rightarrow> world" where
  "submit_answer s mid qi sel w =
     (let user = s_userId (socks w s)
      in case get_room w mid of
        None \<Rightarrow> emit (ToSocket s) (ErrorEv MATCH_NOT_FOUND) w
      | Some (a, r) \<Rightarrow>
          (case at (questionsData r) qi of
             None \<Rightarrow> emit (ToSocket s) (ErrorEv QUESTION_NOT_FOUND) w
           | Some q \<Rightarrow>
               let correct = (sel = JNum (correctOptionId q));
                   xp = (if correct then XP_PER_CORRECT else 0);
                   total = score_of (scores r) (prop_key user) + xp;
                   r1 = r\<lparr>scores := AList.update (prop_key user) total (scores r),
                          answers := AList.update (prop_key user)
                            \<lparr>questionIndex = qi, selectedOptionId = sel, isCorrect = correct, xpAwarded = xp\<rparr>
                            (answers r)\<rparr>;
                   w1 = set_room a r1 w;
                   correctOption = find (\<lambda>opt. fst opt = correctOptionId q) (options q)
               in if \<not> correct \<and> correctOption = None
                  then emit (ToSocket s) (ErrorEv ANSWER_FAILED) w1
                  else
                    let w2 = emit (ToSocket s) (AnswerValidated qi sel correct (correctOptionId q) xp total) w1;
                        r2 = r1\<lparr>players := update_first (\<lambda>p. Some (userId p) = user)
                                               (\<lambda>p. p\<lparr>answered := True\<rparr>) (players r1)\<rparr>;
                        w3 = set_room a r2 w2;
                        w4 = emit (ToRoomExcept mid s) (OpponentAnswered user qi) w3
                    in if list_all answered (players r2)
                       then (case displayQuestionResults mid qi w4 of
                               None \<Rightarrow> emit (ToSocket s) (ErrorEv ANSWER_FAILED) w4
                             | Some w5 \<Rightarrow>
                                 if qi + 1 \<ge> int (length (questionsData r))
                                 then setTimeout (EndMatchT mid) w5 else w5)
                       else w4))"

subsection \<open>Finalize\<close>

text \<open>\<open>arr.sort((a, b) => b.score - a.score)\<close>: stable, highest score first.\<close>

definition sort_desc :: "('a \<Rightarrow> int) \<Rightarrow> 'a list \<Rightarrow> 'a list" where
  "sort_desc f xs = sort_key (\<lambda>x. - f x) xs"

definition winner_of :: "room \<Rightarrow> uid option \<Rightarrow> uid option" where
  "winner_of r forfeiter =
     (if truthy forfeiter
      then map_option userId (find (\<lambda>p. userId p \<noteq> the forfeiter) (players r))
      else (case sort_desc snd (scores r) of [] \<Rightarrow> None | e # _ \<Rightarrow> Some (fst e)))"

definition leaderboard :: "room \<Rightarrow> (uid \<times> string \<times> int) list" where
  "leaderboard r =
     sort_desc (\<lambda>e. snd (snd e))
       (List.map_filter
          (\<lambda>(u, sc). map_option
             (\<lambda>p. (u, (case username p of
                          None \<Rightarrow> ''Player '' @ take 8 u
                        | Some n \<Rightarrow> if n = [] then ''Player '' @ take 8 u else n), sc))
             (find (\<lambda>p. userId p = u) (players r)))
          (scores r))"

text \<open>
  \<open>endMatch\<close>. \<open>ok\<close> is false when the store rejects the update of the Match document
  (or the conversion of a score key to an ObjectId throws): the \<open>catch\<close> block then
  reports \<open>END_MATCH_ERROR\<close> and the room stays. Otherwise the summary is broadcast, the
  two timer handles of the room are cleared, and the key the caller passed is deleted
  from \<open>gameRooms\<close>.
\<close>

definition endMatch :: "bool \<Rightarrow> key \<Rightarrow> uid option \<Rightarrow> string option \<Rightarrow> world \<Rightarrow> world" where
  "endMatch ok mid forfeiter reason w =
     (case get_room w mid of
        None \<Rightarrow> w
      | Some (a, r) \<Rightarrow>
          if \<not> ok then emit (ToRoom mid) (ErrorEv END_MATCH_ERROR) w
          else
            let finalScores = scores r;
                winnerId = winner_of r forfeiter;
                w1 = w\<lparr>matches := AList.map_entry mid
                        (\<lambda>m. m\<lparr>m_state := Finished, m_scores := finalScores\<rparr>) (matches w)\<rparr>;
                w2 = emit (ToRoom mid)
                       (MatchEnded mid winnerId finalScores (leaderboard r)
                          (if questionsData r \<noteq> [] then int (length (questionsData r))
                           else numberOfQuestions r)
                          (if truthy reason then the reason else ''Match completed'')) w1;
                w3 = clearTimeout (gracePeriodTimeout r) w2;
                w4 = clearTimeout (timerInterval r) w3
            in w4\<lparr>gameRooms := AList.delete mid (gameRooms w4)\<rparr>)"

subsection \<open>The other handlers\<close>

text \<open>\<open>user-join\<close>: \<open>found\<close> is the outcome of \<open>User.findById\<close>, \<open>None\<close> when it rejects.\<close>

definition user_join :: "sid \<Rightarrow> uid \<Rightarrow> string \<Rightarrow> bool option \<Rightarrow> world \<Rightarrow> world" where
  "user_join s u name found w =
     (case found of
        None \<Rightarrow> emit (ToSocket s) (ErrorEv JOIN_FAILED) w
      | Some False \<Rightarrow> emit (ToSocket s) (ErrorEv USER_NOT_FOUND) w
      | Some True \<Rightarrow>
          emit ToAll (UserOnline u name)
            (emit (ToSocket s) (UserJoinedSuccess u name)
               (set_sock s (\<lambda>k. k\<lparr>s_userId := Some u, s_username := Some name\<rparr>) w)))"

definition finish_quiz :: "sid \<Rightarrow> key \<Rightarrow> uid \<Rightarrow> bool \<Rightarrow> world \<Rightarrow> world" where
  "finish_quiz s mid u ok w =
     (case get_room w mid of
        None \<Rightarrow> emit (ToSocket s) (ErrorEv MATCH_NOT_FOUND) w
      | Some (a, r) \<Rightarrow>
          let r1 = r\<lparr>players := update_first (\<lambda>p. userId p = u) (\<lambda>p. p\<lparr>finishReady := True\<rparr>) (players r)\<rparr>;
              w1 = set_room a r1 w
          in if length (players r1) \<ge> 2 \<and> list_all finishReady (players r1)
             then endMatch ok mid None (Some ''Both players finished quiz'') w1
             else emit (ToRoomExcept mid s) OpponentFinishReady w1)"

definition next_question :: "sid \<Rightarrow> key \<Rightarrow> bool \<Rightarrow> world \<Rightarrow> world" where
  "next_question s mid ok w =
     (case get_room w mid of
        None \<Rightarrow> emit (ToSocket s) (ErrorEv MATCH_NOT_FOUND) w
      | Some (a, r) \<Rightarrow>
          let r1 = r\<lparr>currentQuestionIndex := currentQuestionIndex r + 1\<rparr>;
              w1 = set_room a r1 w
          in if currentQuestionIndex r1 \<ge> int (length (questionsData r1))
             then endMatch ok mid None None w1
             else deliverQuestion mid (currentQuestionIndex r1) w1)"

text \<open>
  \<open>forfeit-match\<close>: the first player whose id differs from the caller's gets the bonus,
  then the match is ended with the caller as forfeiter.
\<close>

definition forfeit_match :: "sid \<Rightarrow> key \<Rightarrow> bool \<Rightarrow> world \<Rightarrow> world" where
  "forfeit_match s mid ok w =
     (let user = s_userId (socks w s);
          w1 = (case get_room w mid of
                  None \<Rightarrow> w
                | Some (a, r) \<Rightarrow>
                    (case find (\<lambda>p. Some (userId p) \<noteq> user) (players r) of
                       None \<Rightarrow> w
                     | Some opponent \<Rightarrow>
                         set_room a (r\<lparr>scores := AList.update (userId opponent)
                                          (score_of (scores r) (userId opponent) + 50) (scores r)\<rparr>) w))
      in endMatch ok mid user (Some ''Player forfeited'') w1)"

definition reconnect_match :: "sid \<Rightarrow> key \<Rightarrow> uid \<Rightarrow> world \<Rightarrow> world" where
  "reconnect_match s mid u w =
     (case get_room w mid of
        None \<Rightarrow> emit (ToSocket s) (ErrorEv MATCH_NOT_FOUND) w
      | Some (a, r) \<Rightarrow>
          let w1 = set_sock s (\<lambda>k. k\<lparr>s_userId := Some u, s_matchId := Some mid\<rparr>) w;
              r1 = r\<lparr>players := update_first (\<lambda>p. userId p = u)
                                   (\<lambda>p. p\<lparr>disconnected := False, socketId := s\<rparr>) (players r)\<rparr>;
              w2 = set_room a r1 w1;
              w3 = emit (ToRoomExcept mid s) (OpponentReconnected u) w2
          in emit (ToSocket s)
               (MatchStateRestored mid (currentQuestionIndex r1)
                  (at (questionsData r1) (currentQuestionIndex r1)) (scores r1) (state r1)
                  (map (\<lambda>p. (userId p, username p, answered p)) (players r1))) w3)"

text \<open>
  \<open>disconnect\<close>: marks the player bound to the socket and arms the grace-period timer,
  whose closure keeps the room object, the socket's match id and the player's user id.
\<close>

definition disconnect :: "sid \<Rightarrow> world \<Rightarrow> world" where
  "disconnect s w =
     (if \<not> truthy (s_matchId (socks w s)) then w
      else let mid = the (s_matchId (socks w s))
        in case get_room w mid of
          None \<Rightarrow> w
        | Some (a, r) \<Rightarrow>
            (case find (\<lambda>p. socketId p = s) (players r) of
               None \<Rightarrow> w
             | Some player \<Rightarrow>
                 let r1 = r\<lparr>players := update_first (\<lambda>p. socketId p = s)
                                      (\<lambda>p. p\<lparr>disconnected := True\<rparr>) (players r)\<rparr>;
                     w1 = emit (ToRoomExcept mid s) (OpponentDisconnected (userId player)) (set_room a r1 w);
                     w2 = setTimeout (GraceT a mid (userId player)) w1
                 in set_room a (r1\<lparr>gracePeriodTimeout := Some (length (timers w))\<rparr>) w2))"

definition startMatch :: "key \<Rightarrow> world \<Rightarrow> world" where
  "startMatch mid w =
     (case get_room w mid of
        None \<Rightarrow> w
      | Some (a, r) \<Rightarrow>
          setTimeout (DeliverT mid 0)
            (emit (ToRoom mid)
               (StartBattle mid (categoryName r) (length (questionsData r))
                  (if questionTimeLimit r = 0 then QUESTION_TIME_LIMIT else questionTimeLimit r))
               (set_room a (r\<lparr>state := Active\<rparr>) w)))"

subsection \<open>Timers and the event loop\<close>

text \<open>
  What each closure does when it runs. The two closures that captured a room object read
  it from the heap, not from the registry. An exception that escapes a timer callback is
  uncaught, and the server's \<open>uncaughtException\<close> hook exits the process.
\<close>

definition run_timer :: "timer \<Rightarrow> bool \<Rightarrow> world \<Rightarrow> world" where
  "run_timer c ok w =
     (case c of
        StartMatchT mid \<Rightarrow> startMatch mid w
      | DeliverT mid qi \<Rightarrow> deliverQuestion mid qi w
      | DeadlineT a mid qi \<Rightarrow>
          if a < length (heap w) \<and> currentQuestionIndex (heap w ! a) = qi
          then (case displayQuestionResults mid qi (emit (ToRoom mid) (QuestionTimeout qi) w) of
                  None \<Rightarrow> (emit (ToRoom mid) (QuestionTimeout qi) w)\<lparr>crashed := True\<rparr>
                | Some w' \<Rightarrow> w')
          else w
      | EndMatchT mid \<Rightarrow> endMatch ok mid None (Some ''All questions answered'') w
      | GraceT a mid u \<Rightarrow>
          if a < length (heap w) \<and> find (\<lambda>p. userId p = u \<and> disconnected p) (players (heap w ! a)) \<noteq> None
          then endMatch ok mid (Some u) (Some ''Did not reconnect in time'') w
          else w)"

text \<open>A timer fires at most once, and not at all after \<open>clearTimeout\<close>.\<close>

definition fire :: "nat \<Rightarrow> bool \<Rightarrow> world \<Rightarrow> world" where
  "fire t ok w =
     (if t < length (timers w)
      then (case timers w ! t of
              None \<Rightarrow> w
            | Some c \<Rightarrow> run_timer c ok (w\<lparr>timers := (timers w)[t := None]\<rparr>))
      else w)"

datatype input =
    UserJoin sid uid string "bool option"
  | CreateMatch sid create_req fault string "nat list"
  | JoinMatch sid join_req bool
  | SubmitAnswer sid key int jsval
  | FinishQuiz sid key uid bool
  | NextQuestion sid key bool
  | ForfeitMatch sid key bool
  | ReconnectMatch sid key uid
  | Disconnect sid
  | Fire nat bool

fun step :: "world \<Rightarrow> input \<Rightarrow> world" where
  "step w i =
     (if crashed w then w
      else case i of
        UserJoin s u n found \<Rightarrow> user_join s u n found w
      | CreateMatch s req flt oid rs \<Rightarrow> create_match s req flt oid rs w
      | JoinMatch s req ok \<Rightarrow> join_match s req ok w
      | SubmitAnswer s mid qi sel \<Rightarrow> submit_answer s mid qi sel w
      | FinishQuiz s mid u ok \<Rightarrow> finish_quiz s mid u ok w
      | NextQuestion s mid ok \<Rightarrow> next_question s mid ok w
      | ForfeitMatch s mid ok \<Rightarrow> forfeit_match s mid ok w
      | ReconnectMatch s mid u \<Rightarrow> reconnect_match s mid u w
      | Disconnect s \<Rightarrow> disconnect s w
      | Fire t ok \<Rightarrow> fire t ok w)"

definition run :: "world \<Rightarrow> input list \<Rightarrow> world" where
  "run w is = foldl step w is"

subsection \<open>An example match\<close>

text \<open>
  A store with one category and three approved questions, and the inputs that bring a
  duel between two users to its first question: both join the server, the first creates
  the match, the second joins it with the code, and the two start-up timers fire.
\<close>

definition ex_question :: "string \<Rightarrow> question_doc" where
  "ex_question i =
     \<lparr>d_id = i, d_text = ''What is one plus one?'',
      d_options = [(1, ''one''), (2, ''two''), (3, ''three''), (4, ''four'')],
      d_correctOptionId = 2, d_difficulty = ''medium'', d_category = ''64b000000000000000000001'',
      d_isApproved = True, d_isActive = Some True\<rparr>"

definition ex_store :: world where
  "ex_store = init_world [(''64b000000000000000000001'', ''Maths'')]
     [ex_question ''64c000000000000000000001'', ex_question ''64c000000000000000000002'',
      ex_question ''64c000000000000000000003'']"

text \<open>The same store before any question was approved (\<open>isApproved\<close> defaults to false).\<close>

definition ex_pending_store :: world where
  "ex_pending_store = ex_store\<lparr>questions := map (\<lambda>d. d\<lparr>d_isApproved := False\<rparr>) (questions ex_store)\<rparr>"

definition ex_create :: create_req where
  "ex_create = \<lparr>c_categoryId = ''64b000000000000000000001'', c_userId = ''64a00000000000000000000a'',
     c_numberOfQuestions = Some 3, c_timePerQuestion = Some 30\<rparr>"

definition ex_mid :: key where "ex_mid = ''65f1a2b3c4d5e6f708091011''"
definition ex_code :: key where "ex_code = ''65F1A2B3C4D5''"

definition ex_setup :: "input list" where
  "ex_setup =
     [UserJoin ''sA'' ''64a00000000000000000000a'' ''ann'' (Some True),
      UserJoin ''sB'' ''64a00000000000000000000b'' ''bob'' (Some True),
      CreateMatch ''sA'' ex_create NoFault ex_mid [],
      JoinMatch ''sB'' \<lparr>j_matchId = None, j_code = Some ''65f1a2b3c4d5'',
                         j_userId = ''64a00000000000000000000b''\<rparr> True,
      Fire 0 True, Fire 1 True]"

definition ex_live :: world where "ex_live = run ex_store ex_setup"

definition ex_room :: room where
  "ex_room = heap ex_live ! 0"

definition ex_create_bad :: "int \<Rightarrow> int \<Rightarrow> create_req" where
  "ex_create_bad n t = ex_create\<lparr>c_numberOfQuestions := Some n, c_timePerQuestion := Some t\<rparr>"



definition ex_answers :: "input list" where
  "ex_answers = [SubmitAnswer ''sA'' ex_mid 0 (JNum 2), SubmitAnswer ''sB'' ex_mid 0 (JNum 1)]"

definition ex_over :: world where
  "ex_over = run ex_live [ForfeitMatch ''sA'' ex_mid True]"

text \<open>How many \<open>question-results\<close> broadcasts for a question index a log holds for a room.\<close>

definition is_results :: "key \<Rightarrow> int \<Rightarrow> target \<times> event \<Rightarrow> bool" where
  "is_results mid qi te =
     (case te of
        (ToRoom k, QuestionResults i c sc pa) \<Rightarrow> k = mid \<and> i = qi
      | _ \<Rightarrow> False)"

definition results_count :: "key \<Rightarrow> int \<Rightarrow> (target \<times> event) list \<Rightarrow> nat" where
  "results_count mid qi es = length (filter (is_results mid qi) es)"

section \<open>Properties\<close>

subsection \<open>Frame lemmas\<close>

lemmas world_defs = emit_def set_room_def setTimeout_def set_sock_def

lemma get_room_SomeD:
  "get_room w k = Some (a, r) \<Longrightarrow> map_of (gameRooms w) k = Some a \<and> a < length (heap w) \<and> heap w ! a = r"
  by (auto simp: get_room_def split: option.splits if_splits)

lemma get_room_emit [simp]: "get_room (emit t e w) k = get_room w k"
  by (simp add: get_room_def emit_def split: option.splits)

lemma get_room_setTimeout [simp]: "get_room (setTimeout c w) k = get_room w k"
  by (simp add: get_room_def setTimeout_def split: option.splits)

lemma get_room_set_sock [simp]: "get_room (set_sock s f w) k = get_room w k"
  by (simp add: get_room_def set_sock_def split: option.splits)

lemma get_room_timers_update [simp]: "get_room (w\<lparr>timers := ts\<rparr>) k = get_room w k"
  by (simp add: get_room_def split: option.splits)

lemma get_room_set_room:
  "get_room (set_room a r w) k =
     (case get_room w k of None \<Rightarrow> None | Some (b, r0) \<Rightarrow> Some (b, if b = a then r else r0))"
  by (simp add: get_room_def set_room_def split: option.splits)

lemma get_room_set_room_same [simp]:
  "get_room w k = Some (a, r0) \<Longrightarrow> get_room (set_room a r w) k = Some (a, r)"
  by (simp add: get_room_set_room)

lemma score_of_update [simp]:
  "score_of (AList.update k v sc) k' = (if k' = k then v else score_of sc k')"
  by (simp add: score_of_def update_conv')

lemma displayQuestionResults_frame:
  "displayQuestionResults mid qi w = Some w' \<Longrightarrow>
   gameRooms w' = gameRooms w \<and> socks w' = socks w \<and> timers w' = timers w \<and>
   length (heap w') = length (heap w) \<and>
   (\<forall>b. scores (heap w' ! b) = scores (heap w ! b) \<and>
        questionsData (heap w' ! b) = questionsData (heap w ! b)) \<and>
   (\<exists>es. out w' = out w @ es)"
  by (auto simp: displayQuestionResults_def world_defs nth_list_update
      dest!: get_room_SomeD split: option.splits)

lemma submit_answer_heap:
  assumes "get_room w mid = Some (a, r)" and "at (questionsData r) qi = Some q"
  shows "length (heap (submit_answer s mid qi sel w)) = length (heap w) \<and>
         scores (heap (submit_answer s mid qi sel w) ! a) =
           AList.update (prop_key (s_userId (socks w s)))
             (score_of (scores r) (prop_key (s_userId (socks w s)))
                + (if sel = JNum (correctOptionId q) then 10 else 0)) (scores r) \<and>
         (\<forall>b. b \<noteq> a \<longrightarrow> scores (heap (submit_answer s mid qi sel w) ! b) = scores (heap w ! b))"
proof -
  from assms(1) have h: "a < length (heap w)" "heap w ! a = r"
    by (auto dest: get_room_SomeD)
  show ?thesis
  proof (cases "sel = JNum (correctOptionId q)")
    case True
    show ?thesis using assms True h
      by (auto simp: submit_answer_def Let_def XP_PER_CORRECT_def world_defs
          dest!: displayQuestionResults_frame split: option.splits)
  next
    case False
    show ?thesis using assms False h
      by (auto simp: submit_answer_def Let_def XP_PER_CORRECT_def world_defs
          dest!: displayQuestionResults_frame split: option.splits)
  qed
qed

lemma submit_answer_frame:
  "gameRooms (submit_answer s mid qi sel w) = gameRooms w \<and>
   socks (submit_answer s mid qi sel w) = socks w \<and>
   length (heap (submit_answer s mid qi sel w)) = length (heap w) \<and>
   (\<forall>b. questionsData (heap (submit_answer s mid qi sel w) ! b) = questionsData (heap w ! b))"
  by (auto simp: submit_answer_def Let_def world_defs nth_list_update
      dest!: displayQuestionResults_frame get_room_SomeD split: option.splits)


subsection \<open>Facts of the example match\<close>

lemma ex_live_room: "get_room ex_live ex_mid = Some (0, ex_room)"
  by code_simp

lemma ex_room_question:
  "at (questionsData ex_room) 0 = Some (project (ex_question ''64c000000000000000000001''))"
  by code_simp

lemma ex_question_correct:
  "correctOptionId (project (ex_question ''64c000000000000000000001'')) = 2"
  by code_simp

lemma ex_live_user: "prop_key (s_userId (socks ex_live ''sA'')) = ''64a00000000000000000000a''"
  by code_simp

lemma ex_room_scores: "scores ex_room = [(''64a00000000000000000000a'', 0)]"
  by code_simp




subsection \<open>Scoring of one answer\<close>



subsection \<open>Bounds of create-match\<close>




subsection \<open>Repeated answers\<close>

text \<open>
  C9. Submit-answer never looks at the answered flag: on any room that resolves, for any
  question index in range and any socket, one submission of the correct option adds 10
  to the submitter's running score and a second one adds 10 again, 20 in total.
\<close>

theorem C9_submit_answer_not_idempotent:
  assumes "get_room w mid = Some (a, r)" and "at (questionsData r) qi = Some q"
  shows "(let me = prop_key (s_userId (socks w s));
              w1 = submit_answer s mid qi (JNum (correctOptionId q)) w;
              w2 = submit_answer s mid qi (JNum (correctOptionId q)) w1
          in score_of (scores (heap w1 ! a)) me = score_of (scores r) me + 10 \<and>
             score_of (scores (heap w2 ! a)) me = score_of (scores r) me + 20)"
proof -
  let ?sel = "JNum (correctOptionId q)"
  let ?w1 = "submit_answer s mid qi ?sel w"
  note f = submit_answer_frame [of s mid qi ?sel w]
  from assms(1) have h: "map_of (gameRooms w) mid = Some a" "a < length (heap w)" "heap w ! a = r"
    by (auto dest: get_room_SomeD)
  have g1: "get_room ?w1 mid = Some (a, heap ?w1 ! a)"
    using f h by (simp add: get_room_def)
  have q1: "at (questionsData (heap ?w1 ! a)) qi = Some q"
    using f h assms(2) by simp
  note s1 = submit_answer_heap [OF assms, of s ?sel]
  note s2 = submit_answer_heap [OF g1 q1, of s ?sel]
  show ?thesis unfolding Let_def using s1 s2 f by simp
qed

theorem C9_witness:
  "score_of (scores (heap (submit_answer ''sA'' ex_mid 0 (JNum 2)
      (submit_answer ''sA'' ex_mid 0 (JNum 2) ex_live)) ! 0)) ''64a00000000000000000000a'' = 20"
  using C9_submit_answer_not_idempotent [OF ex_live_room ex_room_question, of "''sA''"]
    ex_question_correct ex_live_user ex_room_scores
  by (simp add: Let_def score_of_def)

subsection \<open>Reconnecting\<close>



subsection \<open>Forfeiture\<close>

lemma length_cancel [simp]: "length (cancel h ts) = length ts"
  by (simp add: cancel_def split: option.splits)

lemma heap_endMatch [simp]: "heap (endMatch ok mid f rs w) = heap w"
  by (simp add: endMatch_def Let_def emit_def clearTimeout_def split: option.splits)

lemma get_room_deleted: "get_room (w\<lparr>gameRooms := AList.delete k (gameRooms w)\<rparr>) k = None"
  by (simp add: get_room_def delete_conv')

lemma endMatch_found:
  assumes "get_room w mid = Some (a, r)"
  shows "out (endMatch True mid f rs w) = out w @
           [(ToRoom mid, MatchEnded mid (winner_of r f) (scores r) (leaderboard r)
              (if questionsData r \<noteq> [] then int (length (questionsData r)) else numberOfQuestions r)
              (if truthy rs then the rs else ''Match completed''))] \<and>
         get_room (endMatch True mid f rs w) mid = None \<and>
         gameRooms (endMatch True mid f rs w) = AList.delete mid (gameRooms w) \<and>
         map_of (matches (endMatch True mid f rs w)) mid =
           map_option (\<lambda>m. m\<lparr>m_state := Finished, m_scores := scores r\<rparr>) (map_of (matches w) mid) \<and>
         timers (endMatch True mid f rs w) =
           cancel (timerInterval r) (cancel (gracePeriodTimeout r) (timers w))"
  using assms
  by (simp add: endMatch_def Let_def emit_def clearTimeout_def get_room_def delete_conv'
      map_of_map_entry split: option.splits)



subsection \<open>Disconnect, grace period and reconnect\<close>










subsection \<open>Scores never decrease\<close>





















subsection \<open>Where the code departs from its specification\<close>

text \<open>
  C1. The example match at its first question. Both players answer, which broadcasts
  the results of question 0 once. The deadline armed by \<open>deliverQuestion\<close> is still
  pending (submit-answer clears no timer) and the current question index is still 0, so
  when the deadline fires it broadcasts the results of question 0 a second time.
\<close>

theorem C1_duplicate_results:
  "results_count ex_mid 0 (out (run ex_live ex_answers)) = 1 \<and>
   list_all answered (players (heap (run ex_live ex_answers) ! 0)) \<and>
   currentQuestionIndex (heap (run ex_live ex_answers) ! 0) = 0 \<and>
   timers (run ex_live ex_answers) ! 2 = Some (DeadlineT 0 ex_mid 0) \<and>
   results_count ex_mid 0 (out (run ex_live (ex_answers @ [Fire 2 True]))) = 2"
  by code_simp

theorem C1_witness:
  "1 < results_count ex_mid 0 (out (run ex_live (ex_answers @ [Fire 2 True])))"
  using C1_duplicate_results by simp

text \<open>
  C2. The example match, forfeited by its creator with a successful finalize. The Match
  document is finished and the match id resolves to no room, but \<open>endMatch\<close> deleted
  only the key it was called with: the match code still resolves to the room, and a
  join-match with the code is answered with \<open>MATCH_UNAVAILABLE\<close>, not with
  \<open>MATCH_NOT_FOUND\<close>.
\<close>

theorem C2_code_still_resolves:
  "map_option m_state (map_of (matches ex_over) ex_mid) = Some Finished \<and>
   get_room ex_over ex_mid = None \<and>
   map_option fst (get_room ex_over ex_code) = Some 0 \<and>
   map_option (matchId \<circ> snd) (get_room ex_over ex_code) = Some ex_mid \<and>
   last (out (join_match ''sC'' \<lparr>j_matchId = None, j_code = Some ex_code,
                j_userId = ''64a00000000000000000000c''\<rparr> True ex_over))
     = (ToSocket ''sC'', ErrorEv MATCH_UNAVAILABLE)"
  by code_simp

theorem C2_witness:
  "get_room ex_over ex_mid = None \<and> get_room ex_over ex_code \<noteq> None"
  using C2_code_still_resolves by auto

text \<open>
  C5. A store that holds three questions of the category, all active and none approved.
  A create-match request for three questions succeeds, and the room holds the three
  unapproved questions: the aggregation filters on \<open>isActive\<close> only.
\<close>

theorem C5_unapproved_sampled:
  "list_all (\<lambda>d. \<not> d_isApproved d) (questions ex_pending_store) \<and>
   out (create_match ''sA'' ex_create NoFault ex_mid [] ex_pending_store) =
     [(ToSocket ''sA'', MatchCreated ex_mid ex_code ''Maths''),
      (ToAll, MatchAvailable ex_mid ''64b000000000000000000001'' ''Maths'' None)] \<and>
   map (\<lambda>r. map q_id (questionsData r)) (heap (create_match ''sA'' ex_create NoFault ex_mid [] ex_pending_store)) =
     [[''64c000000000000000000001'', ''64c000000000000000000002'', ''64c000000000000000000003'']]"
  by code_simp

theorem C5_witness:
  "length (heap (create_match ''sA'' ex_create NoFault ex_mid [] ex_pending_store)) = 1"
proof -
  have "length (map (\<lambda>r. map q_id (questionsData r))
          (heap (create_match ''sA'' ex_create NoFault ex_mid [] ex_pending_store))) = 1"
    using C5_unapproved_sampled by simp
  then show ?thesis by simp
qed

section \<open>Further properties of the code\<close>

subsection \<open>Sampling in create-match\<close>

lemma sample_length: "length (sample rs n xs) = min n (length xs)"
proof (induction rs n xs rule: sample.induct)
  case (3 rs n x xs)
  define i where "i = (case rs of [] \<Rightarrow> 0 | r # _ \<Rightarrow> r mod Suc (length xs))"
  have i: "i < Suc (length xs)" by (auto simp: i_def split: list.splits)
  have "length (take i (x # xs) @ drop (Suc i) (x # xs)) = length xs"
    using i by auto
  with 3 [of i] show ?case by (simp add: i_def [symmetric] Let_def)
qed simp_all

lemma sample_subset: "set (sample rs n xs) \<subseteq> set xs"
proof (induction rs n xs rule: sample.induct)
  case (3 rs n x xs)
  define i where "i = (case rs of [] \<Rightarrow> 0 | r # _ \<Rightarrow> r mod Suc (length xs))"
  have i: "i < Suc (length xs)" by (auto simp: i_def split: list.splits)
  have a: "(x # xs) ! i \<in> set (x # xs)" using i by (intro nth_mem) simp
  have b: "set (take i (x # xs) @ drop (Suc i) (x # xs)) \<subseteq> set (x # xs)"
    using set_take_subset [of i "x # xs"] set_drop_subset [of "Suc i" "x # xs"] by auto
  from 3 [of i] a b show ?case
    unfolding sample.simps Let_def i_def [symmetric] by auto
qed simp_all

text \<open>
  X1. A create-match request with both numbers in range, a category that is found, no
  store call rejecting and a fresh document id. Let the pool be the questions of the
  category whose \<open>isActive\<close> is not false. If the pool is smaller than the question
  count, the request only reports \<open>INSUFFICIENT_QUESTIONS\<close>. Otherwise one new room,
  in state waiting, resolves under the match id and under the code, it holds exactly
  question-count snapshots, each the projection of a question of the pool, and the Match
  document is created in state waiting.
\<close>

theorem X1_create_match_sample:
  assumes "3 \<le> or_default (c_numberOfQuestions req) QUESTIONS_PER_MATCH"
    and "or_default (c_numberOfQuestions req) QUESTIONS_PER_MATCH \<le> 20"
    and "15 \<le> or_default (c_timePerQuestion req) QUESTION_TIME_LIMIT"
    and "or_default (c_timePerQuestion req) QUESTION_TIME_LIMIT \<le> 300"
    and "find_category (categories w) (c_categoryId req) = Some cname"
    and "map_of (matches w) oid = None"
  shows "(let n = or_default (c_numberOfQuestions req) QUESTIONS_PER_MATCH;
              pool = filter (\<lambda>d. d_category d = c_categoryId req \<and> d_isActive d \<noteq> Some False) (questions w);
              w' = create_match s req NoFault oid rs w
          in (int (length pool) < n \<longrightarrow> w' = emit (ToSocket s) (ErrorEv INSUFFICIENT_QUESTIONS) w) \<and>
             (n \<le> int (length pool) \<longrightarrow>
                (\<exists>r. get_room w' oid = Some (length (heap w), r) \<and>
                     get_room w' (toUpperCase (take 12 oid)) = Some (length (heap w), r) \<and>
                     int (length (questionsData r)) = n \<and>
                     set (questionsData r) \<subseteq> project ` set pool \<and>
                     state r = Waiting \<and>
                     map_option m_state (map_of (matches w') oid) = Some Waiting)))"
proof -
  define n where "n = or_default (c_numberOfQuestions req) QUESTIONS_PER_MATCH"
  define pool where
    "pool = filter (\<lambda>d. d_category d = c_categoryId req \<and> d_isActive d \<noteq> Some False) (questions w)"
  define qs where "qs = aggregate (questions w) (c_categoryId req) rs (nat n)"
  have len: "length qs = min (nat n) (length pool)"
    by (simp add: qs_def aggregate_def pool_def sample_length)
  have sub: "set qs \<subseteq> project ` set pool"
    using sample_subset [of rs "nat n" pool] by (auto simp: qs_def aggregate_def pool_def)
  have n3: "3 \<le> n" "n \<le> 20" using assms(1,2) by (simp_all add: n_def)
  have few: "create_match s req NoFault oid rs w = emit (ToSocket s) (ErrorEv INSUFFICIENT_QUESTIONS) w"
    if "int (length pool) < n"
    using that assms n3 len
    by (auto simp: create_match_def Let_def n_def [symmetric] qs_def [symmetric])
  have enough: "\<exists>r. get_room (create_match s req NoFault oid rs w) oid = Some (length (heap w), r) \<and>
          get_room (create_match s req NoFault oid rs w) (toUpperCase (take 12 oid)) = Some (length (heap w), r) \<and>
          int (length (questionsData r)) = n \<and>
          set (questionsData r) \<subseteq> project ` set pool \<and>
          state r = Waiting \<and>
          map_option m_state (map_of (matches (create_match s req NoFault oid rs w)) oid) = Some Waiting"
    if "n \<le> int (length pool)"
  proof -
    from that n3 len have l: "int (length qs) = n" "length qs \<noteq> 0" by auto
    show ?thesis
      using assms l sub
      by (simp add: create_match_def Let_def n_def [symmetric] qs_def [symmetric] world_defs
          get_room_def update_conv' new_room_def map_add_def)
  qed
  show ?thesis
    unfolding Let_def n_def [symmetric] pool_def [symmetric]
    using few enough by blast
qed

theorem X1_witness:
  "(\<exists>r. get_room (create_match ''sA'' ex_create NoFault ex_mid [] ex_store) ex_mid = Some (0, r) \<and>
        int (length (questionsData r)) = 3) \<and>
   create_match ''sA'' (ex_create_bad 4 30) NoFault ex_mid [] ex_store =
     emit (ToSocket ''sA'') (ErrorEv INSUFFICIENT_QUESTIONS) ex_store"
proof -
  have c: "find_category (categories ex_store) (c_categoryId ex_create) = Some ''Maths''"
    "find_category (categories ex_store) (c_categoryId (ex_create_bad 4 30)) = Some ''Maths''"
    by code_simp+
  have m: "map_of (matches ex_store) ex_mid = None" by code_simp
  have p: "length (filter (\<lambda>d. d_category d = c_categoryId ex_create \<and> d_isActive d \<noteq> Some False)
             (questions ex_store)) = 3"
    "length (filter (\<lambda>d. d_category d = c_categoryId (ex_create_bad 4 30) \<and> d_isActive d \<noteq> Some False)
             (questions ex_store)) = 3"
    by code_simp+
  have h: "length (heap ex_store) = 0" by code_simp
  have b: "or_default (c_numberOfQuestions ex_create) QUESTIONS_PER_MATCH = 3"
    "or_default (c_timePerQuestion ex_create) QUESTION_TIME_LIMIT = 30"
    "or_default (c_numberOfQuestions (ex_create_bad 4 30)) QUESTIONS_PER_MATCH = 4"
    "or_default (c_timePerQuestion (ex_create_bad 4 30)) QUESTION_TIME_LIMIT = 30"
    by (simp_all add: ex_create_def ex_create_bad_def or_default_def)
  have 1: "\<exists>r. get_room (create_match ''sA'' ex_create NoFault ex_mid [] ex_store) ex_mid = Some (0, r) \<and>
        int (length (questionsData r)) = 3"
    using X1_create_match_sample [of ex_create ex_store "''Maths''" ex_mid "''sA''" "[]"] c(1) m p(1) h b(1,2)
    by (simp add: Let_def) blast
  have 2: "create_match ''sA'' (ex_create_bad 4 30) NoFault ex_mid [] ex_store =
     emit (ToSocket ''sA'') (ErrorEv INSUFFICIENT_QUESTIONS) ex_store"
    using X1_create_match_sample [of "ex_create_bad 4 30" ex_store "''Maths''" ex_mid "''sA''" "[]"] c(2) m p(2) b(3,4)
    by (simp add: Let_def)
  from 1 2 show ?thesis by blast
qed

subsection \<open>The guard of the deadline timer\<close>

text \<open>
  X2. A deadline timer that fires after the room's current question index has moved on
  does nothing but use itself up.
\<close>

theorem X2_stale_deadline:
  assumes "t < length (timers w)" and "timers w ! t = Some (DeadlineT a mid qi)"
    and "a < length (heap w)" and "currentQuestionIndex (heap w ! a) \<noteq> qi"
  shows "fire t ok w = w\<lparr>timers := (timers w)[t := None]\<rparr>"
  using assms by (simp add: fire_def run_timer_def)

theorem X2_witness:
  "out (fire 2 True (run ex_live [NextQuestion ''sA'' ex_mid True])) =
   out (run ex_live [NextQuestion ''sA'' ex_mid True])"
proof -
  have a: "2 < length (timers (run ex_live [NextQuestion ''sA'' ex_mid True]))"
    "timers (run ex_live [NextQuestion ''sA'' ex_mid True]) ! 2 = Some (DeadlineT 0 ex_mid 0)"
    "0 < length (heap (run ex_live [NextQuestion ''sA'' ex_mid True]))"
    "currentQuestionIndex (heap (run ex_live [NextQuestion ''sA'' ex_mid True]) ! 0) \<noteq> 0"
    by code_simp+
  show ?thesis
    using X2_stale_deadline [OF a, of True] by simp
qed

subsection \<open>What finalize removes from the registry\<close>

text \<open>
  X3. When a room is registered under two different keys and \<open>endMatch\<close> succeeds for
  one of them, that key stops resolving and the other one still resolves to the room.
\<close>

theorem X3_endMatch_leaves_other_key:
  assumes "get_room w k1 = Some (a, r)" and "map_of (gameRooms w) k2 = Some a" and "k1 \<noteq> k2"
  shows "get_room (endMatch True k1 f rs w) k1 = None \<and>
         get_room (endMatch True k1 f rs w) k2 = Some (a, r)"
proof -
  from assms(1) have h: "a < length (heap w)" "heap w ! a = r"
    by (auto dest: get_room_SomeD)
  from endMatch_found [OF assms(1), of f rs] assms(2,3) h show ?thesis
    by (simp add: get_room_def delete_conv')
qed

theorem X3_witness:
  "get_room (endMatch True ex_mid None None ex_live) ex_code = Some (0, ex_room)"
proof -
  have a: "map_of (gameRooms ex_live) ex_code = Some 0" "ex_mid \<noteq> ex_code"
    by code_simp+
  show ?thesis
    using X3_endMatch_leaves_other_key [OF ex_live_room a, of None None] by simp
qed

end
